theory Spec2Isabelle
  imports Complex_Main "HOL-Library.Word" "HOL-Library.AList" "HOL-Library.Char_ord"
    "HOL-Library.List_Lexorder" "HOL-Library.Monad_Syntax"
begin

section \<open>Python values used by the program\<close>

subsection \<open>Strings\<close>

text \<open>
  A Python \<open>str\<close> is modelled as a \<^typ>\<open>string\<close>, a list of 8-bit characters read as the
  code points 0..255.  \<open>str.lower()\<close> on these code points maps \<open>A..Z\<close> and the
  Latin-1 capitals (192..222 except the multiplication sign 215) to the code point 32
  above and leaves every other character alone.
\<close>

definition lower_char :: "char \<Rightarrow> char" where
  "lower_char c =
     (let n = (of_char c :: nat) in
      if (65 \<le> n \<and> n \<le> 90) \<or> (192 \<le> n \<and> n \<le> 222 \<and> n \<noteq> 215)
      then char_of (n + 32) else c)"

definition lower :: "string \<Rightarrow> string" where
  "lower s = map lower_char s"

definition is_digit :: "char \<Rightarrow> bool" where
  "is_digit c = (48 \<le> (of_char c :: nat) \<and> (of_char c :: nat) \<le> 57)"

definition digit_val :: "char \<Rightarrow> nat" where
  "digit_val c = of_char c - 48"

definition digit :: "nat \<Rightarrow> char" where
  "digit d = char_of (48 + d)"

definition nat_of_digits :: "string \<Rightarrow> nat" where
  "nat_of_digits s = foldl (\<lambda>a c. 10 * a + digit_val c) 0 s"

text \<open>\<open>zpad w n\<close> is \<open>'%0wd' % n\<close> for a number of at most \<open>w\<close> digits.\<close>

fun zpad :: "nat \<Rightarrow> nat \<Rightarrow> string" where
  "zpad 0 n = []"
| "zpad (Suc w) n = zpad w (n div 10) @ [digit (n mod 10)]"

subsection \<open>Floats\<close>

text \<open>
  A Python \<open>float\<close>: a number, an infinity or NaN.  \<open>Finite x\<close> carries the real number
  the double stands for (statements about every \<open>Finite x\<close> cover every double).  The
  program gets its floats from \<open>float(input(...))\<close>, which also reads \<open>nan\<close>, \<open>inf\<close> and
  \<open>-inf\<close>, and from \<open>json.load\<close>, which reads \<open>NaN\<close>, \<open>Infinity\<close> and \<open>-Infinity\<close>.

  \<open>float_eq\<close> is \<open>==\<close> on floats: NaN is equal to nothing, itself included.
\<close>

datatype pyfloat =
    Finite real
  | PosInf
  | NegInf
  | NaN


text \<open>\<open>x < 0\<close> on floats.\<close>

fun negative :: "pyfloat \<Rightarrow> bool" where
  "negative (Finite x) = (x < 0)"
| "negative PosInf = False"
| "negative NegInf = True"
| "negative NaN = False"

subsection \<open>JSON values\<close>

text \<open>
  What \<open>to_dict\<close> builds and \<open>json.load\<close> returns.  A Python dict keeps its keys in
  insertion order, so a dict is an association list; \<open>d[k]\<close> and \<open>d.get(k)\<close> are
  \<^const>\<open>map_of\<close>, \<open>k in d\<close> is \<open>map_of d k \<noteq> None\<close>, and \<open>d[k] = v\<close> is
  \<^const>\<open>AList.update\<close> (the key keeps its place, a new key goes last).
\<close>

datatype json =
    JNone
  | JBool bool
  | JNum pyfloat
  | JStr string
  | JList "json list"
  | JDict "(string \<times> json) list"

type_synonym jdict = "(string \<times> json) list"




subsection \<open>datetime\<close>

text \<open>
  A naive \<open>datetime\<close> (what \<open>datetime.now()\<close> returns) is its seven fields.  The library
  only builds values within the ranges of \<open>valid_datetime\<close>.
\<close>

record datetime =
  year :: nat
  month :: nat
  day :: nat
  hour :: nat
  minute :: nat
  second :: nat
  microsecond :: nat

definition is_leap :: "nat \<Rightarrow> bool" where
  "is_leap y = (y mod 4 = 0 \<and> (y mod 100 \<noteq> 0 \<or> y mod 400 = 0))"

definition days_in_month :: "nat \<Rightarrow> nat \<Rightarrow> nat" where
  "days_in_month y m =
     (if m = 2 then (if is_leap y then 29 else 28)
      else if m = 4 \<or> m = 6 \<or> m = 9 \<or> m = 11 then 30 else 31)"

definition valid_date :: "nat \<Rightarrow> nat \<Rightarrow> nat \<Rightarrow> bool" where
  "valid_date y m d =
     (1 \<le> y \<and> y \<le> 9999 \<and> 1 \<le> m \<and> m \<le> 12 \<and> 1 \<le> d \<and> d \<le> days_in_month y m)"


text \<open>
  \<open>datetime.isoformat()\<close>: \<open>YYYY-MM-DDTHH:MM:SS\<close>, followed by \<open>.ffffff\<close> when the
  microsecond is not 0.
\<close>

definition isoformat :: "datetime \<Rightarrow> string" where
  "isoformat t =
     zpad 4 (year t) @ ''-'' @ zpad 2 (month t) @ ''-'' @ zpad 2 (day t) @ ''T'' @
     zpad 2 (hour t) @ '':'' @ zpad 2 (minute t) @ '':'' @ zpad 2 (second t) @
     (if microsecond t = 0 then [] else ''.'' @ zpad 6 (microsecond t))"

text \<open>
  \<open>datetime.fromisoformat\<close> for a naive datetime: \<open>YYYY-MM-DD\<close>, then optionally any one
  character and \<open>HH\<close>, \<open>HH:MM\<close>, \<open>HH:MM:SS\<close>, \<open>HH:MM:SS.fff\<close> or \<open>HH:MM:SS.ffffff\<close>;
  the fields left out are 0 (the format the library documents up to Python 3.10; the
  strings \<open>isoformat\<close> writes are among them).  \<open>None\<close> is the \<open>ValueError\<close> of the
  library.  A string with a UTC offset gives an aware datetime, which the program never
  creates and the record above cannot hold, and later versions of the library read
  further ISO 8601 shapes: these are answered with \<open>None\<close> as well, so \<open>from_dict\<close> may
  refuse a hand-written file that the program would load.
\<close>

definition num_at :: "string \<Rightarrow> nat \<Rightarrow> nat \<Rightarrow> nat option" where
  "num_at s i w =
     (let f = take w (drop i s) in
      if length f = w \<and> list_all is_digit f then Some (nat_of_digits f) else None)"

definition char_at :: "string \<Rightarrow> nat \<Rightarrow> char \<Rightarrow> bool" where
  "char_at s i c = (i < length s \<and> s ! i = c)"


text \<open>
  \<open>datetime.strptime(s, "%Y-%m-%d")\<close> returns or raises \<open>ValueError\<close>; the callers only
  use which of the two.  The library matches
  \<open>(\d\d\d\d)-(1[0-2]|0[1-9]|[1-9])-(3[01]|[12]\d|0[1-9]|[1-9]| [1-9])\<close>, wants the whole
  string consumed, and then builds the date, which checks the year and the day of the
  month.
\<close>

definition month_field :: "string \<Rightarrow> nat option" where
  "month_field m =
     (case m of
        [a] \<Rightarrow> if is_digit a \<and> a \<noteq> CHR ''0'' then Some (digit_val a) else None
      | [a, b] \<Rightarrow>
          if (a = CHR ''1'' \<and> (b = CHR ''0'' \<or> b = CHR ''1'' \<or> b = CHR ''2'')) \<or>
             (a = CHR ''0'' \<and> is_digit b \<and> b \<noteq> CHR ''0'')
          then Some (nat_of_digits [a, b]) else None
      | _ \<Rightarrow> None)"

definition day_field :: "string \<Rightarrow> nat option" where
  "day_field d =
     (case d of
        [a] \<Rightarrow> if is_digit a \<and> a \<noteq> CHR ''0'' then Some (digit_val a) else None
      | [a, b] \<Rightarrow>
          if (a = CHR ''3'' \<and> (b = CHR ''0'' \<or> b = CHR ''1'')) \<or>
             ((a = CHR ''1'' \<or> a = CHR ''2'') \<and> is_digit b) \<or>
             (a = CHR ''0'' \<and> is_digit b \<and> b \<noteq> CHR ''0'')
          then Some (nat_of_digits [a, b])
          else if a = CHR '' '' \<and> is_digit b \<and> b \<noteq> CHR ''0'' then Some (digit_val b)
          else None
      | _ \<Rightarrow> None)"

definition strptime_ymd :: "string \<Rightarrow> bool" where
  "strptime_ymd s =
     (case num_at s 0 4 of
        None \<Rightarrow> False
      | Some y \<Rightarrow>
          char_at s 4 CHR ''-'' \<and>
          (let r = drop 5 s;
               m = takeWhile (\<lambda>c. c \<noteq> CHR ''-'') r;
               d = drop (Suc (length m)) r
           in length m < length r \<and>
              (case (month_field m, day_field d) of
                 (Some mo, Some dd) \<Rightarrow> valid_date y mo dd
               | _ \<Rightarrow> False)))"

section \<open>Entity models\<close>

text \<open>
  Each class is a record of its attributes.  Attributes that several classes name alike
  carry the class as a prefix.  A constructor that reads \<open>datetime.now()\<close> takes the
  reading as its last argument.
\<close>

subsection \<open>Reading a field of a loaded dict\<close>












text \<open>\<open>t.isoformat() if t else None\<close>; a datetime object is always truthy.\<close>

definition iso_or_none :: "datetime option \<Rightarrow> json" where
  "iso_or_none t = (case t of None \<Rightarrow> JNone | Some x \<Rightarrow> JStr (isoformat x))"

subsection \<open>User\<close>

record user =
  username :: string
  password_hash :: string
  role :: string
  full_name :: string
  email :: string
  last_login :: "datetime option"
  is_active :: bool

definition User :: "string \<Rightarrow> string \<Rightarrow> string \<Rightarrow> string \<Rightarrow> string \<Rightarrow> user" where
  "User un ph r fn em =
     \<lparr>username = un, password_hash = ph, role = r, full_name = fn, email = em,
      last_login = None, is_active = True\<rparr>"

definition User_to_dict :: "user \<Rightarrow> jdict" where
  "User_to_dict u =
     [(''username'', JStr (username u)),
      (''password_hash'', JStr (password_hash u)),
      (''role'', JStr (role u)),
      (''full_name'', JStr (full_name u)),
      (''email'', JStr (email u)),
      (''last_login'', iso_or_none (last_login u)),
      (''is_active'', JBool (is_active u))]"


text \<open>
  \<open>hashlib.sha256(password.encode()).hexdigest()\<close>.  The digest function is the
  library's and is a parameter \<open>sha256\<close> of everything that hashes: it takes the
  password to its 256-bit digest.  \<open>hexdigest\<close> writes the digest as 64 lower-case
  hexadecimal digits.
\<close>

definition hexdigit :: "nat \<Rightarrow> char" where
  "hexdigit d = (if d < 10 then char_of (48 + d) else char_of (87 + d))"

definition hexdigest :: "256 word \<Rightarrow> string" where
  "hexdigest w = map (\<lambda>i. hexdigit (unat (drop_bit (4 * (63 - i)) w) mod 16)) [0..<64]"

definition hash_password :: "(string \<Rightarrow> 256 word) \<Rightarrow> string \<Rightarrow> string" where
  "hash_password sha256 password = hexdigest (sha256 password)"

definition verify_password :: "(string \<Rightarrow> 256 word) \<Rightarrow> user \<Rightarrow> string \<Rightarrow> bool" where
  "verify_password sha256 u password = (password_hash u = hash_password sha256 password)"

subsection \<open>Department\<close>

record department =
  dept_id :: string
  name :: string
  manager :: string
  description :: string
  dept_employees :: "string list"
  budget :: pyfloat
  dept_created_at :: datetime

definition Department :: "string \<Rightarrow> string \<Rightarrow> string \<Rightarrow> string \<Rightarrow> datetime \<Rightarrow> department" where
  "Department did nm mgr descr now =
     \<lparr>dept_id = did, name = nm, manager = mgr, description = descr, dept_employees = [],
      budget = Finite 0, dept_created_at = now\<rparr>"

definition Department_to_dict :: "department \<Rightarrow> jdict" where
  "Department_to_dict d =
     [(''dept_id'', JStr (dept_id d)),
      (''name'', JStr (name d)),
      (''manager'', JStr (manager d)),
      (''description'', JStr (description d)),
      (''employees'', JList (map JStr (dept_employees d))),
      (''budget'', JNum (budget d)),
      (''created_at'', JStr (isoformat (dept_created_at d)))]"


text \<open>\<open>Department.add_employee\<close>: the returned flag and the department after the call.\<close>

definition Department_add_employee :: "department \<Rightarrow> string \<Rightarrow> bool \<times> department" where
  "Department_add_employee d employee_id =
     (if employee_id \<notin> set (dept_employees d)
      then (True, d\<lparr>dept_employees := dept_employees d @ [employee_id]\<rparr>)
      else (False, d))"

subsection \<open>Employee\<close>

record employee =
  emp_id :: string
  emp_full_name :: string
  position :: string
  department :: string
  hire_date :: string
  salary :: pyfloat
  emp_email :: string
  phone :: string
  emp_is_active :: bool
  emergency_contact :: json
  emp_notes :: string

definition Employee ::
  "string \<Rightarrow> string \<Rightarrow> string \<Rightarrow> string \<Rightarrow> string \<Rightarrow> pyfloat \<Rightarrow> string \<Rightarrow> string \<Rightarrow> employee" where
  "Employee eid fn pos dept hdate sal em ph =
     \<lparr>emp_id = eid, emp_full_name = fn, position = pos, department = dept, hire_date = hdate,
      salary = sal, emp_email = em, phone = ph, emp_is_active = True,
      emergency_contact = JNone, emp_notes = []\<rparr>"

definition Employee_to_dict :: "employee \<Rightarrow> jdict" where
  "Employee_to_dict e =
     [(''emp_id'', JStr (emp_id e)),
      (''full_name'', JStr (emp_full_name e)),
      (''position'', JStr (position e)),
      (''department'', JStr (department e)),
      (''hire_date'', JStr (hire_date e)),
      (''salary'', JNum (salary e)),
      (''email'', JStr (emp_email e)),
      (''phone'', JStr (phone e)),
      (''is_active'', JBool (emp_is_active e)),
      (''emergency_contact'', emergency_contact e),
      (''notes'', JStr (emp_notes e))]"


subsection \<open>Task\<close>

record task =
  task_id :: string
  title :: string
  task_description :: string
  assigned_to :: string
  assigned_by :: string
  due_date :: string
  priority :: string
  status :: string
  task_created_at :: datetime
  completed_at :: "datetime option"
  comments :: "json list"

definition Task ::
  "string \<Rightarrow> string \<Rightarrow> string \<Rightarrow> string \<Rightarrow> string \<Rightarrow> string \<Rightarrow> string \<Rightarrow> datetime \<Rightarrow> task" where
  "Task tid ttl descr ato aby due prio now =
     \<lparr>task_id = tid, title = ttl, task_description = descr, assigned_to = ato,
      assigned_by = aby, due_date = due, priority = prio, status = ''pending'',
      task_created_at = now, completed_at = None, comments = []\<rparr>"

definition Task_to_dict :: "task \<Rightarrow> jdict" where
  "Task_to_dict t =
     [(''task_id'', JStr (task_id t)),
      (''title'', JStr (title t)),
      (''description'', JStr (task_description t)),
      (''assigned_to'', JStr (assigned_to t)),
      (''assigned_by'', JStr (assigned_by t)),
      (''due_date'', JStr (due_date t)),
      (''priority'', JStr (priority t)),
      (''status'', JStr (status t)),
      (''created_at'', JStr (isoformat (task_created_at t))),
      (''completed_at'', iso_or_none (completed_at t)),
      (''comments'', JList (comments t))]"


section \<open>AdminSystem\<close>

subsection \<open>State\<close>

text \<open>
  The attributes of the \<open>AdminSystem\<close> object, then what the program touches outside it:
  the five JSON files (their content as \<open>json.load\<close> would read it back) and the system
  clock.  The clock is a sequence of readings; \<open>ticks\<close> counts the readings taken so far,
  so that two calls of \<open>datetime.now()\<close> may differ.

  \<open>self.current_user\<close> refers to an object that is also a value of \<open>self.users\<close> (the
  program never removes or replaces a user), so the reference is the key of that user and
  \<open>current_user\<close> looks it up.
\<close>

record admin_system =
  current_user_ref :: "string option"
  users :: "(string \<times> user) list"
  departments :: "(string \<times> department) list"
  employees :: "(string \<times> employee) list"
  tasks :: "(string \<times> task) list"
  logs :: "jdict list"
  users_file :: "jdict list"
  departments_file :: "jdict list"
  employees_file :: "jdict list"
  tasks_file :: "jdict list"
  logs_file :: "jdict list"
  clock :: "nat \<Rightarrow> datetime"
  ticks :: nat

definition current_user :: "admin_system \<Rightarrow> user option" where
  "current_user s = (case current_user_ref s of None \<Rightarrow> None | Some k \<Rightarrow> map_of (users s) k)"

text \<open>\<open>k in d\<close> for a dict \<open>d\<close>.\<close>

definition in_dict :: "'k \<Rightarrow> ('k \<times> 'v) list \<Rightarrow> bool" where
  "in_dict k d = (map_of d k \<noteq> None)"

definition datetime_now :: "admin_system \<Rightarrow> datetime \<times> admin_system" where
  "datetime_now s = (clock s (ticks s), s\<lparr>ticks := Suc (ticks s)\<rparr>)"

subsection \<open>Methods of Task that read the clock\<close>

definition add_comment ::
  "task \<Rightarrow> string \<Rightarrow> string \<Rightarrow> admin_system \<Rightarrow> task \<times> admin_system" where
  "add_comment t comment author s =
     (let (now, s') = datetime_now s
      in (t\<lparr>comments := comments t @
               [JDict [(''text'', JStr comment), (''author'', JStr author),
                       (''timestamp'', JStr (isoformat now))]]\<rparr>, s'))"

definition valid_statuses :: "string list" where
  "valid_statuses = [''pending'', ''in_progress'', ''completed'', ''cancelled'']"

definition update_status :: "task \<Rightarrow> string \<Rightarrow> admin_system \<Rightarrow> task \<times> admin_system" where
  "update_status t new_status s =
     (if new_status \<in> set valid_statuses
      then (if new_status = ''completed''
            then (let (now, s') = datetime_now s
                  in (t\<lparr>status := new_status, completed_at := Some now\<rparr>, s'))
            else (t\<lparr>status := new_status\<rparr>, s))
      else (t, s))"

subsection \<open>Record store\<close>

text \<open>
  \<open>_save_data\<close> on a dict writes \<open>[v.to_dict() for v in data.values()]\<close>; on a list (the
  logs) it writes the list.  \<open>json.dump\<close> followed by \<open>json.load\<close> is taken to give the
  value back, so a file holds the value written.
\<close>

definition save_data :: "('a \<Rightarrow> jdict) \<Rightarrow> (string \<times> 'a) list \<Rightarrow> jdict list" where
  "save_data to_dict data = map (\<lambda>(k, v). to_dict v) data"




subsection \<open>Activity log\<close>

definition log_activity :: "string \<Rightarrow> string \<Rightarrow> admin_system \<Rightarrow> admin_system" where
  "log_activity action details s =
     (let (now, s1) = datetime_now s;
          log_entry =
            [(''timestamp'', JStr (isoformat now)),
             (''user'', JStr (case current_user s1 of Some u \<Rightarrow> username u
                                                   | None \<Rightarrow> ''system'')),
             (''action'', JStr action),
             (''details'', JStr details)];
          s2 = s1\<lparr>logs := logs s1 @ [log_entry]\<rparr>
      in s2\<lparr>logs_file := logs s2\<rparr>)"

subsection \<open>What an operation reports\<close>

text \<open>
  An operation prints one closing message and returns; the message is the outcome.
  \<open>Uncaught_ValueError\<close> is \<open>float(input(...))\<close> raising on text that is not a number:
  nothing catches it.  The inputs an operation asks for are its arguments, in the order
  of the prompts.  At a \<open>float(input(...))\<close> prompt the argument is what the call of
  \<open>float\<close> gives the program, a \<open>pyfloat option\<close>: the float it returns (the text is
  already rounded to a double by then; \<open>nan\<close> gives \<open>NaN\<close>, \<open>inf\<close> an infinity), or \<open>None\<close>
  when it raises.
\<close>

datatype message =
    Only_admins_can_create_users
  | Username_already_exists
  | Passwords_dont_match
  | Invalid_role
  | User_created_successfully
  | Only_admins_can_create_departments
  | Department_ID_already_exists
  | Invalid_manager_username_or_user_is_not_a_manager
  | Department_created_successfully
  | Permission_denied
  | Employee_ID_already_exists
  | Invalid_department_ID
  | Invalid_date_format
  | Employee_added_successfully
  | You_must_be_logged_in_to_create_tasks
  | Task_ID_already_exists
  | Invalid_employee_ID
  | Task_created_successfully
  | You_must_be_logged_in_to_update_tasks
  | Task_not_found
  | Invalid_status
  | Task_updated_successfully
  | Uncaught_ValueError

text \<open>
  The error kinds of the specification, and the kind each message stands for.  A success
  message has no kind, nor has the uncaught exception.
\<close>

datatype error_kind =
    ValidationError
  | NotFoundError
  | DuplicateIdError
  | PermissionDenied
  | AuthError

fun kind_of :: "message \<Rightarrow> error_kind option" where
  "kind_of Only_admins_can_create_users = Some PermissionDenied"
| "kind_of Username_already_exists = Some DuplicateIdError"
| "kind_of Passwords_dont_match = Some ValidationError"
| "kind_of Invalid_role = Some ValidationError"
| "kind_of User_created_successfully = None"
| "kind_of Only_admins_can_create_departments = Some PermissionDenied"
| "kind_of Department_ID_already_exists = Some DuplicateIdError"
| "kind_of Invalid_manager_username_or_user_is_not_a_manager = Some NotFoundError"
| "kind_of Department_created_successfully = None"
| "kind_of Permission_denied = Some PermissionDenied"
| "kind_of Employee_ID_already_exists = Some DuplicateIdError"
| "kind_of Invalid_department_ID = Some NotFoundError"
| "kind_of Invalid_date_format = Some ValidationError"
| "kind_of Employee_added_successfully = None"
| "kind_of You_must_be_logged_in_to_create_tasks = Some PermissionDenied"
| "kind_of Task_ID_already_exists = Some DuplicateIdError"
| "kind_of Invalid_employee_ID = Some NotFoundError"
| "kind_of Task_created_successfully = None"
| "kind_of You_must_be_logged_in_to_update_tasks = Some PermissionDenied"
| "kind_of Task_not_found = Some NotFoundError"
| "kind_of Invalid_status = Some ValidationError"
| "kind_of Task_updated_successfully = None"
| "kind_of Uncaught_ValueError = None"

subsection \<open>Authentication\<close>

text \<open>
  \<open>login\<close> returns \<open>True\<close>, or prints "Invalid username or password" and returns
  \<open>False\<close>: the \<open>AuthError\<close> of the specification.
\<close>

definition login ::
  "(string \<Rightarrow> 256 word) \<Rightarrow> string \<Rightarrow> string \<Rightarrow> admin_system \<Rightarrow> bool \<times> admin_system" where
  "login sha256 uname password s =
     (case map_of (users s) uname of
        None \<Rightarrow> (False, s)
      | Some u \<Rightarrow>
          if verify_password sha256 u password \<and> is_active u then
            (let s1 = s\<lparr>current_user_ref := Some uname\<rparr>;
                 (now, s2) = datetime_now s1;
                 s3 = s2\<lparr>users := AList.update uname (u\<lparr>last_login := Some now\<rparr>) (users s2)\<rparr>;
                 s4 = s3\<lparr>users_file := save_data User_to_dict (users s3)\<rparr>
             in (True, log_activity ''login'' (''User '' @ uname @ '' logged in'') s4))
          else (False, s))"

subsection \<open>User management\<close>

definition create_user ::
  "(string \<Rightarrow> 256 word) \<Rightarrow> string \<Rightarrow> string \<Rightarrow> string \<Rightarrow> string \<Rightarrow> string \<Rightarrow> string \<Rightarrow>
   admin_system \<Rightarrow> message \<times> admin_system" where
  "create_user sha256 uname password confirm role_in fname mail s =
     (case current_user s of
        None \<Rightarrow> (Only_admins_can_create_users, s)
      | Some cu \<Rightarrow>
          if role cu \<noteq> ''admin'' then (Only_admins_can_create_users, s)
          else if in_dict uname (users s) then (Username_already_exists, s)
          else if password \<noteq> confirm then (Passwords_dont_match, s)
          else
            (let r = lower role_in in
             if r \<notin> set [''admin'', ''manager'', ''staff''] then (Invalid_role, s)
             else
               (let new_user = User uname (hash_password sha256 password) r fname mail;
                    s1 = s\<lparr>users := AList.update uname new_user (users s)\<rparr>;
                    s2 = s1\<lparr>users_file := save_data User_to_dict (users s1)\<rparr>
                in (User_created_successfully,
                    log_activity ''user_create''
                      (''Created user '' @ uname @ '' with role '' @ r) s2))))"

subsection \<open>Department management\<close>

definition create_department ::
  "string \<Rightarrow> string \<Rightarrow> string \<Rightarrow> string \<Rightarrow> pyfloat option \<Rightarrow> admin_system \<Rightarrow> message \<times> admin_system" where
  "create_department did nm mgr descr budget_in s =
     (case current_user s of
        None \<Rightarrow> (Only_admins_can_create_departments, s)
      | Some cu \<Rightarrow>
          if role cu \<noteq> ''admin'' then (Only_admins_can_create_departments, s)
          else if in_dict did (departments s) then (Department_ID_already_exists, s)
          else if \<not> in_dict mgr (users s) \<or> map_option role (map_of (users s) mgr) \<noteq> Some ''manager''
          then (Invalid_manager_username_or_user_is_not_a_manager, s)
          else
            (case budget_in of
               None \<Rightarrow> (Uncaught_ValueError, s)
             | Some b \<Rightarrow>
                 (let (now, s1) = datetime_now s;
                      new_dept = (Department did nm mgr descr now)\<lparr>budget := b\<rparr>;
                      s2 = s1\<lparr>departments := AList.update did new_dept (departments s1)\<rparr>;
                      s3 = s2\<lparr>departments_file := save_data Department_to_dict (departments s2)\<rparr>
                  in (Department_created_successfully,
                      log_activity ''dept_create'' (''Created department '' @ did) s3))))"

subsection \<open>Employee management\<close>

definition add_employee ::
  "string \<Rightarrow> string \<Rightarrow> string \<Rightarrow> string \<Rightarrow> string \<Rightarrow> pyfloat option \<Rightarrow> string \<Rightarrow> string \<Rightarrow>
   admin_system \<Rightarrow> message \<times> admin_system" where
  "add_employee eid fname pos dept hdate salary_in mail ph s =
     (case current_user s of
        None \<Rightarrow> (Permission_denied, s)
      | Some cu \<Rightarrow>
          if role cu \<notin> set [''admin'', ''manager''] then (Permission_denied, s)
          else if in_dict eid (employees s) then (Employee_ID_already_exists, s)
          else
            (case map_of (departments s) dept of
               None \<Rightarrow> (Invalid_department_ID, s)
             | Some d \<Rightarrow>
                 if \<not> strptime_ymd hdate then (Invalid_date_format, s)
                 else
                   (case salary_in of
                      None \<Rightarrow> (Uncaught_ValueError, s)
                    | Some sal \<Rightarrow>
                        (let new_emp = Employee eid fname pos dept hdate sal mail ph;
                             s1 = s\<lparr>employees := AList.update eid new_emp (employees s)\<rparr>;
                             s2 = s1\<lparr>departments :=
                                      AList.update dept (snd (Department_add_employee d eid))
                                        (departments s1)\<rparr>;
                             s3 = s2\<lparr>employees_file := save_data Employee_to_dict (employees s2)\<rparr>;
                             s4 = s3\<lparr>departments_file :=
                                      save_data Department_to_dict (departments s3)\<rparr>
                         in (Employee_added_successfully,
                             log_activity ''employee_add'' (''Added employee '' @ eid) s4)))))"

text \<open>
  \<open>list_employees\<close> prints one row per employee, sorted by \<open>emp_id\<close>: the employee and the
  name of its department, or "Unknown".  The rows are the result; the column layout is
  not modelled.  Nothing is written, so the state is not returned.
\<close>

definition list_employees ::
  "string option \<Rightarrow> admin_system \<Rightarrow> message + (employee \<times> string) list" where
  "list_employees department_id s =
     (let row = (\<lambda>emp. (emp, case map_of (departments s) (department emp) of
                                 Some d \<Rightarrow> name d | None \<Rightarrow> ''Unknown''))
      in case department_id of
           None \<Rightarrow> Inr (map row (sort_key emp_id (map snd (employees s))))
         | Some did \<Rightarrow>
             if did = [] then Inr (map row (sort_key emp_id (map snd (employees s))))
             else
               (case map_of (departments s) did of
                  None \<Rightarrow> Inl Invalid_department_ID
                | Some d \<Rightarrow>
                    Inr (map row (sort_key emp_id
                           (List.map_filter (map_of (employees s)) (dept_employees d))))))"

subsection \<open>Task management\<close>

definition create_task ::
  "string \<Rightarrow> string \<Rightarrow> string \<Rightarrow> string \<Rightarrow> string \<Rightarrow> string \<Rightarrow> admin_system \<Rightarrow> message \<times> admin_system" where
  "create_task tid ttl descr ato due priority_in s =
     (case current_user s of
        None \<Rightarrow> (You_must_be_logged_in_to_create_tasks, s)
      | Some cu \<Rightarrow>
          if in_dict tid (tasks s) then (Task_ID_already_exists, s)
          else if \<not> in_dict ato (employees s) then (Invalid_employee_ID, s)
          else if \<not> strptime_ymd due then (Invalid_date_format, s)
          else
            (let p = lower priority_in;
                 prio = (if p \<notin> set [''low'', ''medium'', ''high''] then ''medium'' else p);
                 (now, s1) = datetime_now s;
                 new_task = Task tid ttl descr ato (username cu) due prio now;
                 s2 = s1\<lparr>tasks := AList.update tid new_task (tasks s1)\<rparr>;
                 s3 = s2\<lparr>tasks_file := save_data Task_to_dict (tasks s2)\<rparr>
             in (Task_created_successfully,
                 log_activity ''task_create''
                   (''Created task '' @ tid @ '' assigned to '' @ ato) s3)))"

definition update_task_status ::
  "string \<Rightarrow> string \<Rightarrow> string \<Rightarrow> admin_system \<Rightarrow> message \<times> admin_system" where
  "update_task_status tid status_in comment s =
     (case current_user s of
        None \<Rightarrow> (You_must_be_logged_in_to_update_tasks, s)
      | Some cu \<Rightarrow>
          (case map_of (tasks s) tid of
             None \<Rightarrow> (Task_not_found, s)
           | Some t \<Rightarrow>
               (let new_status = lower status_in in
                if new_status \<notin> set [''pending'', ''in_progress'', ''completed'', ''cancelled'']
                then (Invalid_status, s)
                else
                  (let (t1, s1) = update_status t new_status s;
                       (t2, s2) = (if new_status = ''completed''
                                   then (let (now, s') = datetime_now s1
                                         in (t1\<lparr>completed_at := Some now\<rparr>, s'))
                                   else (t1, s1));
                       (t3, s3) = (if comment \<noteq> [] then add_comment t2 comment (username cu) s2
                                   else (t2, s2));
                       s4 = s3\<lparr>tasks := AList.update tid t3 (tasks s3)\<rparr>;
                       s5 = s4\<lparr>tasks_file := save_data Task_to_dict (tasks s4)\<rparr>
                   in (Task_updated_successfully,
                       log_activity ''task_update''
                         (''Updated task '' @ tid @ '' to status '' @ new_status) s5)))))"

section \<open>Predicates used in the statements\<close>














text \<open>
  The account \<open>uname\<close> is stored with the digest of \<open>password\<close> and is active.
\<close>

definition account :: "(string \<Rightarrow> 256 word) \<Rightarrow> string \<Rightarrow> string \<Rightarrow> admin_system \<Rightarrow> bool" where
  "account sha256 uname password s =
     (case map_of (users s) uname of
        None \<Rightarrow> False
      | Some u \<Rightarrow> password_hash u = hash_password sha256 password \<and> is_active u)"

section \<open>A sample system\<close>

text \<open>
  One admin, one manager and one staff user; a department with one employee; an open
  task and a completed one.  \<open>sample who\<close> is the system with \<open>who\<close> logged in.
\<close>

definition sample_clock :: "nat \<Rightarrow> datetime" where
  "sample_clock n =
     \<lparr>year = 2025, month = 3, day = 14, hour = 9, minute = 30, second = n mod 60,
      microsecond = 0\<rparr>"

definition sample_users :: "(string \<times> user) list" where
  "sample_users =
     [(''admin'', User ''admin'' ''240be518'' ''admin'' ''System Administrator''
                    ''admin@company.com''),
      (''m1'', User ''m1'' ''7c4a8d09'' ''manager'' ''Mia Manager'' ''m1@company.com''),
      (''s1'', User ''s1'' ''5e884898'' ''staff'' ''Sam Staff'' ''s1@company.com'')]"

definition sample_departments :: "(string \<times> department) list" where
  "sample_departments =
     [(''D1'', (Department ''D1'' ''Engineering'' ''m1'' ''Builds things'' (sample_clock 0))
                 \<lparr>dept_employees := [''E1''], budget := Finite 10000\<rparr>)]"

definition sample_employees :: "(string \<times> employee) list" where
  "sample_employees =
     [(''E1'', Employee ''E1'' ''Eve Engineer'' ''Developer'' ''D1'' ''2024-01-15'' (Finite 5000)
                 ''eve@company.com'' ''555-0100'')]"

definition sample_tasks :: "(string \<times> task) list" where
  "sample_tasks =
     [(''T1'', Task ''T1'' ''Write report'' ''Quarterly figures'' ''E1'' ''m1'' ''2025-04-01''
                 ''high'' (sample_clock 1)),
      (''T2'', (Task ''T2'' ''Fix printer'' ''Second floor'' ''E1'' ''m1'' ''2025-03-20''
                  ''low'' (sample_clock 2))
                 \<lparr>status := ''completed'', completed_at := Some (sample_clock 3)\<rparr>)]"

definition sample :: "string option \<Rightarrow> admin_system" where
  "sample who =
     \<lparr>current_user_ref = who,
      users = sample_users,
      departments = sample_departments,
      employees = sample_employees,
      tasks = sample_tasks,
      logs = [],
      users_file = save_data User_to_dict sample_users,
      departments_file = save_data Department_to_dict sample_departments,
      employees_file = save_data Employee_to_dict sample_employees,
      tasks_file = save_data Task_to_dict sample_tasks,
      logs_file = [],
      clock = sample_clock,
      ticks = 4\<rparr>"

text \<open>
  A stand-in digest function for the examples: any function to 256-bit words will do
  where a statement holds for every digest function.
\<close>

definition sample_sha256 :: "string \<Rightarrow> 256 word" where
  "sample_sha256 p = of_nat (nat_of_digits p)"

section \<open>Auxiliary facts\<close>

subsection \<open>Timestamps in ISO format\<close>

















subsection \<open>Entities and collections as JSON\<close>














subsection \<open>Collections keyed by identifier\<close>








subsection \<open>Equality of an entity and its copy\<close>







subsection \<open>The sample system\<close>






lemma sample_admin: "current_user (sample (Some ''admin''))
   = Some (User ''admin'' ''240be518'' ''admin'' ''System Administrator'' ''admin@company.com'')"
  by (simp add: current_user_def sample_def sample_users_def)

lemma role_User: "role (User u h r f m) = r" "username (User u h r f m) = u"
  by (simp_all add: User_def)

lemma sample_D1: "map_of (departments (sample who)) ''D1''
   = Some ((Department ''D1'' ''Engineering'' ''m1'' ''Builds things'' (sample_clock 0))
              \<lparr>dept_employees := [''E1''], budget := Finite 10000\<rparr>)"
  by (simp add: sample_def sample_departments_def)

lemma sample_no_E2: "\<not> in_dict ''E2'' (employees (sample who))"
  by (simp add: in_dict_def sample_def sample_employees_def)

lemma date_2024_01_15: "strptime_ymd ''2024-01-15''"
  by (simp add: strptime_ymd_def num_at_def char_at_def month_field_def day_field_def
     is_digit_def digit_val_def nat_of_digits_def valid_date_def days_in_month_def)

lemma sample_staff: "current_user (sample (Some ''s1''))
   = Some (User ''s1'' ''5e884898'' ''staff'' ''Sam Staff'' ''s1@company.com'')"
  by (simp add: current_user_def sample_def sample_users_def)

lemma sample_T1: "map_of (tasks (sample who)) ''T1''
   = Some (Task ''T1'' ''Write report'' ''Quarterly figures'' ''E1'' ''m1'' ''2025-04-01''
                 ''high'' (sample_clock 1))"
  by (simp add: sample_def sample_tasks_def)

lemma sample_T2: "map_of (tasks (sample who)) ''T2''
   = Some ((Task ''T2'' ''Fix printer'' ''Second floor'' ''E1'' ''m1'' ''2025-03-20''
                  ''low'' (sample_clock 2))
                 \<lparr>status := ''completed'', completed_at := Some (sample_clock 3)\<rparr>)"
  by (simp add: sample_def sample_tasks_def)

lemma lower_lowercase [simp]:
  "lower ''bogus'' = ''bogus''" "lower ''completed'' = ''completed''"
  "lower ''pending'' = ''pending''" "lower ''in_progress'' = ''in_progress''"
  "lower ''cancelled'' = ''cancelled''" "lower ''urgent'' = ''urgent''"
  by (simp_all add: lower_def lower_char_def)

lemma lower_COMPLETED: "lower ''COMPLETED'' = ''completed''"
  by code_simp

lemma sample_no_D9: "\<not> in_dict ''D9'' (departments (sample who))"
  by (simp add: in_dict_def sample_def sample_departments_def)

lemma sample_no_T3: "\<not> in_dict ''T3'' (tasks (sample who))"
  by (simp add: in_dict_def sample_def sample_tasks_def)

lemma sample_E1: "in_dict ''E1'' (employees (sample who))"
  by (simp add: in_dict_def sample_def sample_employees_def)

lemma date_2025_04_01: "strptime_ymd ''2025-04-01''"
  by (simp add: strptime_ymd_def num_at_def char_at_def month_field_def day_field_def
     is_digit_def digit_val_def nat_of_digits_def valid_date_def days_in_month_def)

subsection \<open>Operations\<close>

lemma log_activity_frame:
  "users (log_activity a d s) = users s"
  "departments (log_activity a d s) = departments s"
  "employees (log_activity a d s) = employees s"
  "tasks (log_activity a d s) = tasks s"
  "current_user_ref (log_activity a d s) = current_user_ref s"
  "clock (log_activity a d s) = clock s"
  "ticks (log_activity a d s) = Suc (ticks s)"
  by (simp_all add: log_activity_def datetime_now_def Let_def)

lemma map_of_update_same: "map_of (AList.update k v m) k = Some v"
  by (simp add: update_conv')

lemma add_employee_accepts:
  assumes "current_user s = Some cu" and "role cu = ''admin'' \<or> role cu = ''manager''"
    and "\<not> in_dict eid (employees s)" and "map_of (departments s) dept = Some d"
    and "strptime_ymd hdate"
  shows "fst (add_employee eid fname pos dept hdate (Some sal) mail ph s)
           = Employee_added_successfully"
    and "map_of (employees (snd (add_employee eid fname pos dept hdate (Some sal) mail ph s))) eid
           = Some (Employee eid fname pos dept hdate sal mail ph)"
    and "map_of (departments (snd (add_employee eid fname pos dept hdate (Some sal) mail ph s))) dept
           = Some (snd (Department_add_employee d eid))"
  using assms
  by (auto simp add: add_employee_def Let_def log_activity_frame map_of_update_same)

lemma salary_Employee: "salary (Employee eid fname pos dept hdate sal mail ph) = sal"
  by (simp add: Employee_def)

lemma update_task_status_completed:
  assumes "current_user s = Some cu" and "map_of (tasks s) tid = Some t"
    and "lower st = ''completed''"
  shows "fst (update_task_status tid st c s) = Task_updated_successfully"
    and "map_option status (map_of (tasks (snd (update_task_status tid st c s))) tid)
           = Some ''completed''"
    and "map_option completed_at (map_of (tasks (snd (update_task_status tid st c s))) tid)
           = Some (Some (clock s (Suc (ticks s))))"
  using assms
  by (simp_all add: update_task_status_def update_status_def valid_statuses_def Let_def
      datetime_now_def add_comment_def log_activity_frame map_of_update_same)

lemma update_task_status_other:
  assumes "current_user s = Some cu" and "map_of (tasks s) tid = Some t"
    and "st = ''pending'' \<or> st = ''in_progress'' \<or> st = ''cancelled''"
  shows "fst (update_task_status tid st c s) = Task_updated_successfully"
    and "map_option status (map_of (tasks (snd (update_task_status tid st c s))) tid) = Some st"
    and "map_option completed_at (map_of (tasks (snd (update_task_status tid st c s))) tid)
           = Some (completed_at t)"
  using assms
  by (auto simp add: update_task_status_def update_status_def valid_statuses_def Let_def
      datetime_now_def add_comment_def log_activity_frame map_of_update_same)

lemma create_task_creates:
  assumes "current_user s = Some cu" and "\<not> in_dict tid (tasks s)"
    and "in_dict ato (employees s)" and "strptime_ymd due"
  shows "fst (create_task tid ttl descr ato due prio s) = Task_created_successfully"
    and "map_of (tasks (snd (create_task tid ttl descr ato due prio s))) tid
           = Some (Task tid ttl descr ato (username cu) due
                    (if lower prio \<in> set [''low'', ''medium'', ''high''] then lower prio
                     else ''medium'')
                    (clock s (ticks s)))"
  using assms
  by (simp_all add: create_task_def Let_def datetime_now_def log_activity_frame
      map_of_update_same)

lemma priority_Task: "priority (Task tid ttl descr ato aby due prio now) = prio"
  by (simp add: Task_def)

lemma create_user_account:
  assumes "fst (create_user sha u p cf r fn ml s) = User_created_successfully"
  shows "account sha u p (snd (create_user sha u p cf r fn ml s))"
  using assms
  by (auto simp add: create_user_def account_def Let_def log_activity_frame map_of_update_same
      User_def split: option.splits if_splits)

lemma login_accepts:
  assumes "account sha u p s" and "hash_password sha q = hash_password sha p"
  shows "fst (login sha u q s) = True"
    and "map_option last_login (map_of (users (snd (login sha u q s))) u)
           = Some (Some (clock s (ticks s)))"
    and "current_user_ref (snd (login sha u q s)) = Some u"
  using assms
  by (auto simp add: login_def account_def verify_password_def Let_def datetime_now_def
      log_activity_frame map_of_update_same split: option.splits)

lemma login_refuses:
  assumes "account sha u p s" and "hash_password sha q \<noteq> hash_password sha p"
  shows "login sha u q s = (False, s)"
  using assms
  by (auto simp add: login_def account_def verify_password_def split: option.splits)

lemma create_user_clock:
  assumes "fst (create_user sha u p cf r fn ml s) = User_created_successfully"
  shows "clock (snd (create_user sha u p cf r fn ml s)) = clock s"
    and "ticks (snd (create_user sha u p cf r fn ml s)) = Suc (ticks s)"
  using assms
  by (auto simp add: create_user_def Let_def log_activity_frame split: option.splits if_splits)

lemma sample_create_u2:
  "fst (create_user sha ''u2'' p p ''staff'' ''Uma User'' ''u2@company.com''
          (sample (Some ''admin''))) = User_created_successfully"
proof -
  have "\<not> in_dict ''u2'' (users (sample (Some ''admin'')))"
    by (simp add: in_dict_def sample_def sample_users_def)
  then show ?thesis
    using sample_admin by (simp add: create_user_def role_User lower_def lower_char_def Let_def)
qed

lemma hexdigest_last: "hexdigest w ! 63 = hexdigit (unat w mod 16)"
  by (simp add: hexdigest_def)

lemma sample_digests_differ:
  "hash_password sample_sha256 ''1235'' \<noteq> hash_password sample_sha256 ''1234''"
proof
  assume "hash_password sample_sha256 ''1235'' = hash_password sample_sha256 ''1234''"
  then have "hexdigest (sample_sha256 ''1235'') ! 63 = hexdigest (sample_sha256 ''1234'') ! 63"
    by (simp add: hash_password_def)
  then show False
    by (simp add: hexdigest_last sample_sha256_def nat_of_digits_def digit_val_def
        hexdigit_def)
qed


section \<open>Serialisation\<close>




section \<open>Listing employees\<close>

text \<open>
  Claim C1, as amended.  The claim has \<open>list_employees\<close> denied to a staff caller and to
  no caller at all.  The method has no role check: \<open>create_task\<close> and
  \<open>generate_employee_report\<close>, open to every logged-in user, call it to show the list.
  What holds, for every caller: the result does not depend on who is logged in.
  Without a department id (or with an empty one) it is a listing, one row for every
  employee, in the order of the employee ids; with the id of an existing department it
  is a listing of the department's employees; a row is the employee and the name of
  its department; and the only failure is
  \<open>Invalid_department_ID\<close>, a \<open>NotFoundError\<close>, for a non-empty id that is not a
  department's.  It is never a \<open>PermissionDenied\<close> outcome.
\<close>

theorem list_employees_unrestricted:
  "list_employees dep (s\<lparr>current_user_ref := who\<rparr>) = list_employees dep s
 \<and> (\<forall>m. list_employees dep s = Inl m \<longrightarrow>
        m = Invalid_department_ID \<and> kind_of m = Some NotFoundError
      \<and> kind_of m \<noteq> Some PermissionDenied
      \<and> (\<exists>did. dep = Some did \<and> did \<noteq> [] \<and> \<not> in_dict did (departments s)))
 \<and> (dep = None \<or> dep = Some [] \<longrightarrow>
        (\<exists>rows. list_employees dep s = Inr rows
           \<and> map fst rows = sort_key emp_id (map snd (employees s))))
 \<and> (\<forall>did d. dep = Some did \<and> did \<noteq> [] \<and> map_of (departments s) did = Some d \<longrightarrow>
        (\<exists>rows. list_employees dep s = Inr rows
           \<and> map fst rows
               = sort_key emp_id (List.map_filter (map_of (employees s)) (dept_employees d))))
 \<and> (\<forall>did. dep = Some did \<and> did \<noteq> [] \<and> \<not> in_dict did (departments s) \<longrightarrow>
        list_employees dep s = Inl Invalid_department_ID)
 \<and> (\<forall>rows. list_employees dep s = Inr rows \<longrightarrow>
        map snd rows
          = map (\<lambda>e. case map_of (departments s) (department e) of
                         Some d \<Rightarrow> name d | None \<Rightarrow> ''Unknown'') (map fst rows))"
  by (auto simp add: list_employees_def Let_def comp_def in_dict_def split: option.splits)

text \<open>
  On the sample system, the staff user lists department \<open>D1\<close> and gets what the admin
  gets, the row of employee \<open>E1\<close>; the unknown department \<open>D9\<close> is the failure.
\<close>

theorem list_employees_unrestricted_witness:
  "list_employees (Some ''D1'') (sample (Some ''s1''))
     = list_employees (Some ''D1'') (sample (Some ''admin''))
 \<and> (\<exists>rows. list_employees (Some ''D1'') (sample (Some ''s1'')) = Inr rows
        \<and> map fst rows = [snd (sample_employees ! 0)])
 \<and> list_employees (Some ''D9'') (sample (Some ''s1'')) = Inl Invalid_department_ID"
proof -
  have d1: "map_of (departments (sample (Some ''admin''))) ''D1''
      = Some (snd (sample_departments ! 0))"
    by (simp add: sample_def sample_departments_def)
  have rows: "sort_key emp_id (List.map_filter (map_of (employees (sample (Some ''admin''))))
        (dept_employees (snd (sample_departments ! 0)))) = [snd (sample_employees ! 0)]"
    by (simp add: sample_def sample_departments_def sample_employees_def
        List.map_filter_simps)
  have d9: "\<not> in_dict ''D9'' (departments (sample (Some ''s1'')))"
    by (rule sample_no_D9)
  have same: "sample (Some ''admin'')\<lparr>current_user_ref := Some ''s1''\<rparr> = sample (Some ''s1'')"
    by (simp add: sample_def)
  from list_employees_unrestricted
         [where dep = "Some ''D1''" and s = "sample (Some ''admin'')" and who = "Some ''s1''"]
       list_employees_unrestricted
         [where dep = "Some ''D9''" and s = "sample (Some ''s1'')" and who = "Some ''s1''"]
       d1 rows d9 same
  show ?thesis by auto
qed

text \<open>
  The claim as written fails: with the staff user \<open>s1\<close> logged in, and with nobody logged
  in, \<open>list_employees\<close> returns the row of employee \<open>E1\<close>.
\<close>

theorem staff_lists_employees:
  "map_option role (current_user (sample (Some ''s1''))) = Some ''staff''
 \<and> list_employees None (sample (Some ''s1''))
     = Inr [(Employee ''E1'' ''Eve Engineer'' ''Developer'' ''D1'' ''2024-01-15'' (Finite 5000)
               ''eve@company.com'' ''555-0100'', ''Engineering'')]
 \<and> current_user (sample None) = None
 \<and> list_employees None (sample None)
     = Inr [(Employee ''E1'' ''Eve Engineer'' ''Developer'' ''D1'' ''2024-01-15'' (Finite 5000)
               ''eve@company.com'' ''555-0100'', ''Engineering'')]"
  by (simp add: list_employees_def current_user_def sample_def sample_users_def
      sample_employees_def sample_departments_def User_def Department_def Employee_def)

section \<open>Adding an employee\<close>

text \<open>
  Claim C2, as amended.  The claim has a negative salary rejected with \<open>ValidationError\<close>.
  \<open>add_employee\<close> reads the salary with \<open>float(input(...))\<close> and never looks at its sign.
  What holds: for an authorized caller (admin or manager), a new employee id, an existing
  department and a well-formed hire date, the operation succeeds for every float read,
  a negative one included: the employee is stored under its id with that float as
  salary, and the id is in the employee list of the department afterwards (appended, or
  in its place if the list had it).
\<close>

theorem add_employee_any_salary:
  assumes "current_user s = Some cu" and "role cu = ''admin'' \<or> role cu = ''manager''"
    and "\<not> in_dict eid (employees s)" and "map_of (departments s) dept = Some d"
    and "strptime_ymd hdate"
  shows "fst (add_employee eid fname pos dept hdate (Some sal) mail ph s)
           = Employee_added_successfully
       \<and> kind_of (fst (add_employee eid fname pos dept hdate (Some sal) mail ph s))
           \<noteq> Some ValidationError
       \<and> map_of (employees (snd (add_employee eid fname pos dept hdate (Some sal) mail ph s))) eid
           = Some (Employee eid fname pos dept hdate sal mail ph)
       \<and> map_option salary
            (map_of (employees (snd (add_employee eid fname pos dept hdate (Some sal) mail ph s)))
               eid) = Some sal
       \<and> map_of (departments (snd (add_employee eid fname pos dept hdate (Some sal) mail ph s))) dept
           = Some (snd (Department_add_employee d eid))
       \<and> map_of (departments (snd (add_employee eid fname pos dept hdate (Some sal) mail ph s))) dept
           = Some (d\<lparr>dept_employees :=
                       (if eid \<in> set (dept_employees d) then dept_employees d
                        else dept_employees d @ [eid])\<rparr>)
       \<and> map_option (\<lambda>d'. eid \<in> set (dept_employees d'))
            (map_of (departments (snd (add_employee eid fname pos dept hdate (Some sal) mail ph s)))
               dept) = Some True"
  using add_employee_accepts [OF assms, of fname pos sal mail ph]
  by (simp add: salary_Employee Department_add_employee_def)

text \<open>
  On the sample system, the admin adds employee \<open>E2\<close> with salary 4200 to department
  \<open>D1\<close>, which lists \<open>E1\<close>.
\<close>

theorem add_employee_any_salary_witness:
  "fst (add_employee ''E2'' ''Pat Payroll'' ''Clerk'' ''D1'' ''2024-01-15''
          (Some (Finite 4200)) ''pat@company.com'' ''555-0101'' (sample (Some ''admin'')))
     = Employee_added_successfully
 \<and> map_option salary
      (map_of (employees (snd (add_employee ''E2'' ''Pat Payroll'' ''Clerk'' ''D1''
          ''2024-01-15'' (Some (Finite 4200)) ''pat@company.com'' ''555-0101''
          (sample (Some ''admin''))))) ''E2'') = Some (Finite 4200)
 \<and> map_option dept_employees
      (map_of (departments (snd (add_employee ''E2'' ''Pat Payroll'' ''Clerk'' ''D1''
          ''2024-01-15'' (Some (Finite 4200)) ''pat@company.com'' ''555-0101''
          (sample (Some ''admin''))))) ''D1'') = Some [''E1'', ''E2'']"
  using add_employee_any_salary [OF sample_admin _ sample_no_E2 sample_D1 date_2024_01_15,
      of "''Pat Payroll''" "''Clerk''" "Finite 4200" "''pat@company.com''" "''555-0101''"]
  by (auto simp add: role_User Department_add_employee_def)

text \<open>
  The claim as written fails: the admin adds employee \<open>E2\<close> with salary -5000; the
  operation succeeds, the employee is stored with that salary, and department \<open>D1\<close>
  lists it.
\<close>

theorem negative_salary_accepted:
  "map_option role (current_user (sample (Some ''admin''))) = Some ''admin''
 \<and> negative (Finite (- 5000))
 \<and> fst (add_employee ''E2'' ''Pat Payroll'' ''Clerk'' ''D1'' ''2024-01-15''
          (Some (Finite (- 5000))) ''pat@company.com'' ''555-0101'' (sample (Some ''admin'')))
     = Employee_added_successfully
 \<and> kind_of (fst (add_employee ''E2'' ''Pat Payroll'' ''Clerk'' ''D1'' ''2024-01-15''
          (Some (Finite (- 5000))) ''pat@company.com'' ''555-0101''
          (sample (Some ''admin'')))) \<noteq> Some ValidationError
 \<and> map_option salary
      (map_of (employees (snd (add_employee ''E2'' ''Pat Payroll'' ''Clerk'' ''D1''
          ''2024-01-15'' (Some (Finite (- 5000))) ''pat@company.com'' ''555-0101''
          (sample (Some ''admin''))))) ''E2'') = Some (Finite (- 5000))
 \<and> map_of (employees (sample (Some ''admin''))) ''E2'' = None
 \<and> map_option dept_employees
      (map_of (departments (snd (add_employee ''E2'' ''Pat Payroll'' ''Clerk'' ''D1''
          ''2024-01-15'' (Some (Finite (- 5000))) ''pat@company.com'' ''555-0101''
          (sample (Some ''admin''))))) ''D1'') = Some [''E1'', ''E2'']"
  using add_employee_accepts [OF sample_admin _ sample_no_E2 sample_D1 date_2024_01_15,
      of "''Pat Payroll''" "''Clerk''" "Finite (- 5000)" "''pat@company.com''" "''555-0101''"]
    sample_no_E2 [of "Some ''admin''"] sample_admin
  by (simp add: role_User salary_Employee in_dict_def Department_add_employee_def)

section \<open>Updating the status of a task\<close>

text \<open>
  Claim C3, as amended.  The claim rejects every status string outside
  \<open>pending\<close>, \<open>in_progress\<close>, \<open>completed\<close>, \<open>cancelled\<close>.  \<open>update_task_status\<close> lowercases
  the string it reads before it compares (\<open>input(...).lower()\<close>).  What holds: for a
  logged-in caller and an existing task, a status string whose lowercase form is not one
  of the four is rejected with \<open>ValidationError\<close>; the task and the whole state are left
  as they were, and \<open>Task.update_status\<close> itself leaves the task alone.
\<close>

theorem invalid_status_rejected:
  assumes "current_user s = Some cu" and "map_of (tasks s) tid = Some t"
    and "lower st \<notin> set valid_statuses"
  shows "update_task_status tid st c s = (Invalid_status, s)
       \<and> kind_of Invalid_status = Some ValidationError
       \<and> update_status t (lower st) s = (t, s)"
  using assms by (simp add: update_task_status_def update_status_def valid_statuses_def)

text \<open>
  On the sample system, the staff user sets task \<open>T1\<close> to \<open>bogus\<close>: rejected, and the
  status stays \<open>pending\<close>.
\<close>

theorem invalid_status_rejected_witness:
  "update_task_status ''T1'' ''bogus'' ''why'' (sample (Some ''s1''))
     = (Invalid_status, sample (Some ''s1''))
 \<and> map_option status (map_of (tasks (sample (Some ''s1''))) ''T1'') = Some ''pending''"
  using invalid_status_rejected [OF sample_staff sample_T1, of "''bogus''" "''why''"] sample_T1
  by (simp add: valid_statuses_def Task_def)

text \<open>
  The claim as written fails: \<open>COMPLETED\<close> is not one of the four strings, and the staff
  user sets task \<open>T1\<close> to it; the update succeeds and the status becomes \<open>completed\<close>.
\<close>

theorem uppercase_status_accepted:
  "''COMPLETED'' \<notin> set valid_statuses
 \<and> map_option status (map_of (tasks (sample (Some ''s1''))) ''T1'') = Some ''pending''
 \<and> fst (update_task_status ''T1'' ''COMPLETED'' [] (sample (Some ''s1'')))
     = Task_updated_successfully
 \<and> kind_of (fst (update_task_status ''T1'' ''COMPLETED'' [] (sample (Some ''s1''))))
     \<noteq> Some ValidationError
 \<and> map_option status
      (map_of (tasks (snd (update_task_status ''T1'' ''COMPLETED'' [] (sample (Some ''s1'')))))
         ''T1'') = Some ''completed''"
  using update_task_status_completed [OF sample_staff sample_T1 lower_COMPLETED, of "[]"]
    sample_T1
  by (simp add: valid_statuses_def Task_def)


text \<open>
  Claim C4.  For an existing task and a logged-in caller, \<open>update_task_status\<close> to
  \<open>completed\<close> succeeds, sets the status to \<open>completed\<close> and the completion timestamp to
  the time read from the clock: \<open>Task.update_status\<close> takes one reading, and the operation
  overwrites it with the next (\<open>task.completed_at = datetime.now()\<close>), so the timestamp is
  not null afterwards.
\<close>

theorem completed_sets_timestamp:
  assumes "current_user s = Some cu" and "map_of (tasks s) tid = Some t"
  shows "fst (update_task_status tid ''completed'' c s) = Task_updated_successfully
       \<and> map_option status (map_of (tasks (snd (update_task_status tid ''completed'' c s))) tid)
           = Some ''completed''
       \<and> map_option completed_at
            (map_of (tasks (snd (update_task_status tid ''completed'' c s))) tid)
           = Some (Some (clock s (Suc (ticks s))))
       \<and> update_status t ''completed'' s
           = (t\<lparr>status := ''completed'', completed_at := Some (clock s (ticks s))\<rparr>,
              s\<lparr>ticks := Suc (ticks s)\<rparr>)"
  using update_task_status_completed [OF assms, of "''completed''" c]
  by (simp add: update_status_def valid_statuses_def datetime_now_def)

text \<open>
  On the sample system, task \<open>T1\<close> has no completion timestamp; after the staff user
  completes it, it has the clock's reading.
\<close>

theorem completed_sets_timestamp_witness:
  "map_option completed_at (map_of (tasks (sample (Some ''s1''))) ''T1'') = Some None
 \<and> fst (update_task_status ''T1'' ''completed'' ''done'' (sample (Some ''s1'')))
     = Task_updated_successfully
 \<and> map_option completed_at
      (map_of (tasks (snd (update_task_status ''T1'' ''completed'' ''done''
         (sample (Some ''s1''))))) ''T1'')
     = Some (Some \<lparr>year = 2025, month = 3, day = 14, hour = 9, minute = 30, second = 5,
                     microsecond = 0\<rparr>)"
  using completed_sets_timestamp [OF sample_staff sample_T1, of "''done''"] sample_T1
  by (simp add: Task_def sample_def sample_clock_def)

text \<open>
  Claim C5.  For a task whose completion timestamp is set, changing the status to
  \<open>pending\<close>, \<open>in_progress\<close> or \<open>cancelled\<close> changes the status and leaves the completion
  timestamp as it was: in \<open>Task.update_status\<close>, and in \<open>update_task_status\<close> by a
  logged-in caller.
\<close>

theorem completion_timestamp_kept:
  assumes "current_user s = Some cu" and "map_of (tasks s) tid = Some t"
    and "completed_at t = Some ts"
    and "st = ''pending'' \<or> st = ''in_progress'' \<or> st = ''cancelled''"
  shows "update_status t st s = (t\<lparr>status := st\<rparr>, s)
       \<and> fst (update_task_status tid st c s) = Task_updated_successfully
       \<and> map_option status (map_of (tasks (snd (update_task_status tid st c s))) tid) = Some st
       \<and> map_option completed_at (map_of (tasks (snd (update_task_status tid st c s))) tid)
           = Some (Some ts)"
  using update_task_status_other [OF assms(1,2,4), of c] assms(3,4)
  by (auto simp add: update_status_def valid_statuses_def)

text \<open>
  On the sample system, the completed task \<open>T2\<close> is set back to \<open>pending\<close> and keeps its
  completion timestamp.
\<close>

theorem completion_timestamp_kept_witness:
  "map_option status (map_of (tasks (sample (Some ''s1''))) ''T2'') = Some ''completed''
 \<and> map_option status
      (map_of (tasks (snd (update_task_status ''T2'' ''pending'' [] (sample (Some ''s1'')))))
         ''T2'') = Some ''pending''
 \<and> map_option completed_at
      (map_of (tasks (snd (update_task_status ''T2'' ''pending'' [] (sample (Some ''s1'')))))
         ''T2'') = Some (Some (sample_clock 3))"
  using completion_timestamp_kept [OF sample_staff sample_T2, of "sample_clock 3" "''pending''" "[]"]
    sample_T2
  by simp

section \<open>Identifiers already in use\<close>

text \<open>
  Claim C8.  Each creation operation, given an identifier that is already a key of its
  collection, leaves the whole state as it was (every collection, and so the existing
  entity), and the caller who is allowed to run the operation, the only one who is asked
  for the identifier, is told that it exists: a \<open>DuplicateIdError\<close>.
\<close>

theorem duplicate_id_rejected:
  "(in_dict uname (users s) \<longrightarrow>
      snd (create_user sha uname pw cf r fn ml s) = s
    \<and> (map_option role (current_user s) = Some ''admin'' \<longrightarrow>
         fst (create_user sha uname pw cf r fn ml s) = Username_already_exists))
 \<and> (in_dict did (departments s) \<longrightarrow>
      snd (create_department did nm mgr descr bud s) = s
    \<and> (map_option role (current_user s) = Some ''admin'' \<longrightarrow>
         fst (create_department did nm mgr descr bud s) = Department_ID_already_exists))
 \<and> (in_dict eid (employees s) \<longrightarrow>
      snd (add_employee eid fname pos dept hdate sal mail ph s) = s
    \<and> (map_option role (current_user s) = Some ''admin''
        \<or> map_option role (current_user s) = Some ''manager'' \<longrightarrow>
         fst (add_employee eid fname pos dept hdate sal mail ph s) = Employee_ID_already_exists))
 \<and> (in_dict tid (tasks s) \<longrightarrow>
      snd (create_task tid ttl tdescr ato due prio s) = s
    \<and> (current_user s \<noteq> None \<longrightarrow>
         fst (create_task tid ttl tdescr ato due prio s) = Task_ID_already_exists))
 \<and> kind_of Username_already_exists = Some DuplicateIdError
 \<and> kind_of Department_ID_already_exists = Some DuplicateIdError
 \<and> kind_of Employee_ID_already_exists = Some DuplicateIdError
 \<and> kind_of Task_ID_already_exists = Some DuplicateIdError"
  by (auto simp add: create_user_def create_department_def add_employee_def create_task_def
      split: option.splits)

text \<open>
  On the sample system, the admin tries user \<open>s1\<close>, department \<open>D1\<close>, employee \<open>E1\<close> and
  task \<open>T1\<close> again.
\<close>

theorem duplicate_id_rejected_witness:
  "create_user sample_sha256 ''s1'' ''pw'' ''pw'' ''staff'' ''Sam Second'' ''s2@company.com''
     (sample (Some ''admin'')) = (Username_already_exists, sample (Some ''admin''))
 \<and> create_department ''D1'' ''Sales'' ''m1'' ''Sells things'' (Some (Finite 500))
     (sample (Some ''admin'')) = (Department_ID_already_exists, sample (Some ''admin''))
 \<and> add_employee ''E1'' ''Eve Second'' ''Tester'' ''D1'' ''2024-01-15'' (Some (Finite 100))
     ''eve2@company.com'' ''555-0102'' (sample (Some ''admin''))
     = (Employee_ID_already_exists, sample (Some ''admin''))
 \<and> create_task ''T1'' ''Other'' ''Other task'' ''E1'' ''2025-04-01'' ''low''
     (sample (Some ''admin'')) = (Task_ID_already_exists, sample (Some ''admin''))"
  using duplicate_id_rejected [where s = "sample (Some ''admin'')" and uname = "''s1''"
      and did = "''D1''" and eid = "''E1''" and tid = "''T1''" and sha = sample_sha256
      and pw = "''pw''" and cf = "''pw''" and r = "''staff''" and fn = "''Sam Second''"
      and ml = "''s2@company.com''" and nm = "''Sales''" and mgr = "''m1''"
      and descr = "''Sells things''" and bud = "Some (Finite 500)" and fname = "''Eve Second''"
      and pos = "''Tester''" and dept = "''D1''" and hdate = "''2024-01-15''"
      and sal = "Some (Finite 100)" and mail = "''eve2@company.com''" and ph = "''555-0102''"
      and ttl = "''Other''" and tdescr = "''Other task''" and ato = "''E1''"
      and due = "''2025-04-01''" and prio = "''low''"]
    sample_admin sample_D1 [of "Some ''admin''"] sample_T1 [of "Some ''admin''"]
  by (simp add: role_User in_dict_def prod_eq_iff)
    (simp add: sample_def sample_users_def sample_employees_def)

section \<open>An employee for a department that does not exist\<close>

text \<open>
  Claim C9.  When the department id given to \<open>add_employee\<close> is not a key of the
  Department collection, the state is returned as it was: no employee is created and
  no department's employee list changes.  The authorized caller who gave a new employee
  id, the one who is asked for the department, is told that the department id is invalid:
  a \<open>NotFoundError\<close>.
\<close>

theorem unknown_department_rejected:
  assumes "\<not> in_dict dept (departments s)"
  shows "snd (add_employee eid fname pos dept hdate sal mail ph s) = s
       \<and> (current_user s = Some cu \<and> (role cu = ''admin'' \<or> role cu = ''manager'')
            \<and> \<not> in_dict eid (employees s) \<longrightarrow>
          fst (add_employee eid fname pos dept hdate sal mail ph s) = Invalid_department_ID)
       \<and> kind_of Invalid_department_ID = Some NotFoundError"
  using assms
  by (auto simp add: add_employee_def in_dict_def split: option.splits)

text \<open>
  On the sample system, the admin adds employee \<open>E2\<close> to the unknown department \<open>D9\<close>.
\<close>

theorem unknown_department_rejected_witness:
  "add_employee ''E2'' ''Pat Payroll'' ''Clerk'' ''D9'' ''2024-01-15'' (Some (Finite 4200))
     ''pat@company.com'' ''555-0101'' (sample (Some ''admin''))
   = (Invalid_department_ID, sample (Some ''admin''))"
  using unknown_department_rejected [where s = "sample (Some ''admin'')"
      and dept = "''D9''" and cu = "User ''admin'' ''240be518'' ''admin''
        ''System Administrator'' ''admin@company.com''" and eid = "''E2''" and fname = "''Pat Payroll''" and pos = "''Clerk''"
      and hdate = "''2024-01-15''" and sal = "Some (Finite 4200)" and mail = "''pat@company.com''"
      and ph = "''555-0101''", OF sample_no_D9] sample_admin sample_no_E2 [of "Some ''admin''"]
  by (simp add: role_User prod_eq_iff)

section \<open>The priority of a new task\<close>

text \<open>
  Claim C10.  When a logged-in caller creates a task with a new task id, an existing
  assignee and a well-formed due date, and the priority given is, in lowercase, none of
  \<open>low\<close>, \<open>medium\<close>, \<open>high\<close>, the task is created all the same, with priority \<open>medium\<close>;
  the outcome is not a \<open>ValidationError\<close>.
\<close>

theorem invalid_priority_defaults:
  assumes "current_user s = Some cu" and "\<not> in_dict tid (tasks s)"
    and "in_dict ato (employees s)" and "strptime_ymd due"
    and "lower prio \<notin> set [''low'', ''medium'', ''high'']"
  shows "fst (create_task tid ttl descr ato due prio s) = Task_created_successfully
       \<and> kind_of (fst (create_task tid ttl descr ato due prio s)) \<noteq> Some ValidationError
       \<and> map_of (tasks (snd (create_task tid ttl descr ato due prio s))) tid
           = Some (Task tid ttl descr ato (username cu) due ''medium'' (clock s (ticks s)))
       \<and> map_option priority (map_of (tasks (snd (create_task tid ttl descr ato due prio s))) tid)
           = Some ''medium''"
  using create_task_creates [OF assms(1-4), of ttl descr prio] assms(5)
  by (simp add: priority_Task)

text \<open>
  On the sample system, the staff user creates task \<open>T3\<close> with priority \<open>urgent\<close>.
\<close>

theorem invalid_priority_defaults_witness:
  "fst (create_task ''T3'' ''Order paper'' ''A4'' ''E1'' ''2025-04-01'' ''urgent''
          (sample (Some ''s1''))) = Task_created_successfully
 \<and> map_option priority
      (map_of (tasks (snd (create_task ''T3'' ''Order paper'' ''A4'' ''E1'' ''2025-04-01''
          ''urgent'' (sample (Some ''s1''))))) ''T3'') = Some ''medium''"
  using invalid_priority_defaults [OF sample_staff sample_no_T3 sample_E1 date_2025_04_01,
      of "''urgent''" "''Order paper''" "''A4''"]
  by (simp add: priority_Task)

section \<open>Logging in\<close>

text \<open>
  Claim C6.  The account stores the SHA-256 digest of the password and
  \<open>verify_password\<close> compares digests (the one-way hash of the specification), so one
  password is told from another by its digest.  For every digest function: \<open>create_user\<close>
  with username \<open>u\<close> and password \<open>p\<close> leaves an active account with the digest of \<open>p\<close>;
  while the account is so, \<open>login\<close> with \<open>p\<close> returns \<open>True\<close>, binds the session to \<open>u\<close> and
  sets the user's last login to the clock's reading; \<open>login\<close> with a password of another
  digest returns \<open>False\<close> (the \<open>AuthError\<close> of the specification) and changes nothing;
  \<open>login\<close> succeeds for exactly the passwords that have the stored digest; and for a
  username without an account, or with one that is not active, it fails as well.
\<close>

theorem login_after_create_user:
  "(fst (create_user sha u p cf r fn ml s0) = User_created_successfully \<longrightarrow>
      account sha u p (snd (create_user sha u p cf r fn ml s0)))
 \<and> (account sha u p s \<longrightarrow>
      fst (login sha u p s) = True
    \<and> current_user_ref (snd (login sha u p s)) = Some u
    \<and> map_option last_login (map_of (users (snd (login sha u p s))) u)
        = Some (Some (clock s (ticks s)))
    \<and> (hash_password sha q \<noteq> hash_password sha p \<longrightarrow> login sha u q s = (False, s))
    \<and> fst (login sha u q s) = (hash_password sha q = hash_password sha p))
 \<and> (map_option is_active (map_of (users s) u) \<noteq> Some True \<longrightarrow>
      login sha u q s = (False, s))"
proof -
  have closed: "login sha u q s = (False, s)"
    if "map_option is_active (map_of (users s) u) \<noteq> Some True"
    using that by (auto simp add: login_def split: option.splits)
  have "fst (login sha u q s) = (hash_password sha q = hash_password sha p)"
    if "account sha u p s"
    using that login_accepts(1) [of sha u p s q] login_refuses [of sha u p s q]
    by (cases "hash_password sha q = hash_password sha p") simp_all
  then show ?thesis
    using create_user_account [of sha u p cf r fn ml s0] login_accepts [of sha u p s p]
      login_refuses [of sha u p s q] closed
    by simp
qed

text \<open>
  On the sample system with the stand-in digest function, the admin creates user \<open>u2\<close>
  with password \<open>1234\<close>; \<open>login\<close> with \<open>1234\<close> succeeds and sets the last login, \<open>login\<close>
  with \<open>1235\<close> fails.
\<close>

theorem login_after_create_user_witness:
  "fst (login sample_sha256 ''u2'' ''1234''
          (snd (create_user sample_sha256 ''u2'' ''1234'' ''1234'' ''staff'' ''Uma User''
                  ''u2@company.com'' (sample (Some ''admin''))))) = True
 \<and> map_option last_login
      (map_of (users (snd (login sample_sha256 ''u2'' ''1234''
          (snd (create_user sample_sha256 ''u2'' ''1234'' ''1234'' ''staff'' ''Uma User''
                  ''u2@company.com'' (sample (Some ''admin''))))))) ''u2'')
     = Some (Some (sample_clock 5))
 \<and> fst (login sample_sha256 ''u2'' ''1235''
          (snd (create_user sample_sha256 ''u2'' ''1234'' ''1234'' ''staff'' ''Uma User''
                  ''u2@company.com'' (sample (Some ''admin''))))) = False"
  using login_after_create_user [where sha = sample_sha256 and u = "''u2''" and p = "''1234''"
      and cf = "''1234''" and r = "''staff''" and fn = "''Uma User''"
      and ml = "''u2@company.com''" and ?s0.0 = "sample (Some ''admin'')"
      and s = "snd (create_user sample_sha256 ''u2'' ''1234'' ''1234'' ''staff'' ''Uma User''
                  ''u2@company.com'' (sample (Some ''admin'')))"
      and q = "''1235''"]
    sample_digests_differ sample_create_u2 [of sample_sha256 "''1234''"]
    create_user_clock [OF sample_create_u2 [of sample_sha256 "''1234''"]]
  by (simp add: sample_def)

end
